theory Spec2Isabelle
  imports Main "HOL-Library.Word"
begin

section \<open>Data model of \<open>Poco::Data::Column\<close>\<close>

text \<open>
  \<open>std::size_t\<close> is an unsigned 64-bit integer and \<open>int\<close> a signed 32-bit integer
  (the LP64 data model). Unsigned arithmetic is modular. Overflow of an \<open>int\<close> is left
  undefined by the language; the model takes the wrap-around of two's-complement
  hardware. An \<open>int\<close> compared with a \<open>std::size_t\<close> is first converted to
  \<open>std::size_t\<close>, which is sign extension (\<open>scast\<close>).
\<close>

type_synonym size_t = "64 word"
type_synonym c_int = "32 word"

text \<open>
  The backing container lives on the free store and is reached through
  \<open>Poco::SharedPtr<Container> _pData\<close>. Several columns may hold the same address, so
  the store is explicit: a heap maps every address to the container found there. A
  \<open>std::vector\<close>, a \<open>std::vector<bool>\<close>, a \<open>std::deque\<close> and a \<open>std::list\<close> are all
  sequences of elements and are modelled as HOL lists. The raw pointer handed to a
  constructor is \<open>None\<close> when it is the null pointer.
\<close>

type_synonym addr = nat
type_synonym 'a heap = "addr \<Rightarrow> 'a list"

text \<open>
  Exceptions carry their message. The text returned by \<open>std::out_of_range::what()\<close>
  is chosen by the standard library; \<open>Std_what\<close> stands for it. \<open>Text s\<close> is a message
  given literally in the source. \<open>std::out_of_range\<close> is the exception of the standard
  containers, \<open>RangeException\<close> the one of the library (declared in another header,
  constructed from a message). \<open>Bugcheck\<close> is the failure of \<open>poco_check_ptr\<close>.
\<close>

datatype message = Std_what | Text string

datatype exn =
    out_of_range message
  | RangeException message
  | Bugcheck

text \<open>
  \<open>Column<T, C>\<close> and \<open>Column<T, std::list<T>>\<close> have the members \<open>_metaColumn\<close> and
  \<open>_pData\<close>; \<open>Column<bool, std::vector<bool>>\<close> has the additional member
  \<open>mutable std::deque<bool> _deque\<close>. The class \<open>MetaColumn\<close> is declared in another
  header; it is only stored and copied here, so its type is the parameter \<open>'m\<close>.
\<close>

record 'm Column =
  metaColumn :: 'm
  pData :: addr

record 'm BoolColumn = "'m Column" +
  deque :: "bool list"


section \<open>Container operations used by the class\<close>

text \<open>\<open>at(n)\<close> of a vector or deque: the element, or \<open>std::out_of_range\<close>.\<close>

definition at :: "'a list \<Rightarrow> size_t \<Rightarrow> exn + 'a" where
  "at xs n = (if unat n < length xs then Inr (xs ! unat n) else Inl (out_of_range Std_what))"

text \<open>\<open>std::deque<bool>::resize(n)\<close>: cuts the tail or appends value-initialised elements.\<close>

definition resize :: "bool list \<Rightarrow> nat \<Rightarrow> bool list" where
  "resize d n = (if n \<le> length d then take n d else d @ replicate (n - length d) False)"

text \<open>
  The handler \<open>catch (std::out_of_range& ex) { throw RangeException(ex.what()); }\<close>:
  the new exception carries the message of the caught one; any other exception passes
  through.
\<close>

definition catch_out_of_range :: "exn \<Rightarrow> exn" where
  "catch_out_of_range ex =
     (case ex of out_of_range m \<Rightarrow> RangeException m | _ \<Rightarrow> ex)"

text \<open>
  Modelled from the spec: the macro \<open>poco_check_ptr\<close>, whose definition is in a header
  that is not among the sources. The spec calls construction with a null backing store
  a programming error caught by a fatal precondition check: the check fails on the null
  pointer and lets any other pointer pass.
\<close>

definition poco_check_ptr :: "addr option \<Rightarrow> exn + addr" where
  "poco_check_ptr p = (case p of None \<Rightarrow> Inl Bugcheck | Some a \<Rightarrow> Inr a)"


section \<open>The generic variant \<open>Column<T, C>\<close>\<close>

definition Column_new :: "'m \<Rightarrow> addr option \<Rightarrow> exn + 'm Column" where
  "Column_new m p =
     (case poco_check_ptr p of Inl ex \<Rightarrow> Inl ex
      | Inr a \<Rightarrow> Inr \<lparr>metaColumn = m, pData = a\<rparr>)"

definition Column_copy :: "'m Column \<Rightarrow> 'm Column" where
  "Column_copy col = \<lparr>metaColumn = metaColumn col, pData = pData col\<rparr>"

definition swap_vec :: "'m Column \<Rightarrow> 'm Column \<Rightarrow> 'm Column \<times> 'm Column" where
  "swap_vec this other =
     (this\<lparr>metaColumn := metaColumn other, pData := pData other\<rparr>,
      other\<lparr>metaColumn := metaColumn this, pData := pData this\<rparr>)"

text \<open>
  \<open>operator =\<close>: copy, swap, return \<open>*this\<close>. The temporary, which now holds the
  former members of \<open>*this\<close>, is destroyed; that releases one reference to the former
  container and touches no container at another address.
\<close>

definition assign_vec :: "'m Column \<Rightarrow> 'm Column \<Rightarrow> 'm Column" where
  "assign_vec this col = (let tmp = Column_copy col in fst (swap_vec this tmp))"

text \<open>
  \<open>data()\<close> returns a reference to the container. Reading through it is \<open>data\<close>; a
  caller that changes the container through it replaces the container at that address
  by \<open>f\<close> of it (\<open>data_mutate\<close>).
\<close>

definition data :: "'a heap \<Rightarrow> ('m, 'z) Column_scheme \<Rightarrow> 'a list" where
  "data h c = h (pData c)"

definition data_mutate :: "('a list \<Rightarrow> 'a list) \<Rightarrow> 'a heap \<Rightarrow> ('m, 'z) Column_scheme \<Rightarrow> 'a heap" where
  "data_mutate f h c = h(pData c := f (h (pData c)))"

text \<open>
  Member functions take the heap and the column object and return their result together
  with the heap and the column object afterwards.
\<close>

definition value_vec ::
  "'a heap \<Rightarrow> 'm Column \<Rightarrow> size_t \<Rightarrow> (exn + 'a) \<times> 'a heap \<times> 'm Column" where
  "value_vec h c row =
     (case at (h (pData c)) row of
        Inl ex \<Rightarrow> (Inl (catch_out_of_range ex), h, c)
      | Inr v \<Rightarrow> (Inr v, h, c))"

definition op_index_vec ::
  "'a heap \<Rightarrow> 'm Column \<Rightarrow> size_t \<Rightarrow> (exn + 'a) \<times> 'a heap \<times> 'm Column" where
  "op_index_vec h c row = value_vec h c row"

definition rowCount_vec :: "'a heap \<Rightarrow> 'm Column \<Rightarrow> size_t" where
  "rowCount_vec h c = of_nat (length (h (pData c)))"

text \<open>\<open>C().swap(*_pData)\<close>: the container at the address becomes the empty one.\<close>

definition reset_vec :: "'a heap \<Rightarrow> 'm Column \<Rightarrow> 'a heap \<times> 'm Column" where
  "reset_vec h c = (h(pData c := []), c)"


section \<open>The specialisation \<open>Column<bool, std::vector<bool>>\<close>\<close>

definition BoolColumn_new :: "bool heap \<Rightarrow> 'm \<Rightarrow> addr option \<Rightarrow> exn + 'm BoolColumn" where
  "BoolColumn_new h m p =
     (case poco_check_ptr p of Inl ex \<Rightarrow> Inl ex
      | Inr a \<Rightarrow> Inr \<lparr>metaColumn = m, pData = a, deque = h a\<rparr>)"

definition BoolColumn_copy :: "bool heap \<Rightarrow> 'm BoolColumn \<Rightarrow> 'm BoolColumn" where
  "BoolColumn_copy h col =
     \<lparr>metaColumn = metaColumn col, pData = pData col, deque = h (pData col)\<rparr>"

definition swap_bool :: "'m BoolColumn \<Rightarrow> 'm BoolColumn \<Rightarrow> 'm BoolColumn \<times> 'm BoolColumn" where
  "swap_bool this other =
     (this\<lparr>metaColumn := metaColumn other, pData := pData other, deque := deque other\<rparr>,
      other\<lparr>metaColumn := metaColumn this, pData := pData this, deque := deque this\<rparr>)"

definition assign_bool :: "bool heap \<Rightarrow> 'm BoolColumn \<Rightarrow> 'm BoolColumn \<Rightarrow> 'm BoolColumn" where
  "assign_bool h this col = (let tmp = BoolColumn_copy h col in fst (swap_bool this tmp))"

text \<open>
  \<open>value\<close>: the shadow deque is first resized when it is shorter than the vector. In
  \<open>_deque.at(row) = _pData->at(row)\<close> the right operand is evaluated first; either
  \<open>at\<close> may throw \<open>std::out_of_range\<close>, which the handler turns into
  \<open>RangeException\<close>. Otherwise the element is written into the deque and the
  returned reference denotes that slot, which is read back here.
\<close>

definition value_bool ::
  "bool heap \<Rightarrow> 'm BoolColumn \<Rightarrow> size_t \<Rightarrow> (exn + bool) \<times> bool heap \<times> 'm BoolColumn" where
  "value_bool h c row =
     (let c1 = (if length (deque c) < length (h (pData c))
                then c\<lparr>deque := resize (deque c) (length (h (pData c)))\<rparr> else c)
      in case at (h (pData c1)) row of
           Inl ex \<Rightarrow> (Inl (catch_out_of_range ex), h, c1)
         | Inr b \<Rightarrow>
             (case at (deque c1) row of
                Inl ex \<Rightarrow> (Inl (catch_out_of_range ex), h, c1)
              | Inr _ \<Rightarrow>
                  (let c2 = c1\<lparr>deque := (deque c1)[unat row := b]\<rparr>
                   in (Inr (deque c2 ! unat row), h, c2))))"

definition op_index_bool ::
  "bool heap \<Rightarrow> 'm BoolColumn \<Rightarrow> size_t \<Rightarrow> (exn + bool) \<times> bool heap \<times> 'm BoolColumn" where
  "op_index_bool h c row = value_bool h c row"

definition rowCount_bool :: "bool heap \<Rightarrow> 'm BoolColumn \<Rightarrow> size_t" where
  "rowCount_bool h c = of_nat (length (h (pData c)))"

definition reset_bool :: "bool heap \<Rightarrow> 'm BoolColumn \<Rightarrow> bool heap \<times> 'm BoolColumn" where
  "reset_bool h c = (h(pData c := []), c\<lparr>deque := []\<rparr>)"


section \<open>The specialisation \<open>Column<T, std::list<T>>\<close>\<close>

text \<open>
  It has the same members as the generic variant, and its constructors, \<open>swap\<close> and
  \<open>operator =\<close> repeat the generic ones.
\<close>

definition ListColumn_new :: "'m \<Rightarrow> addr option \<Rightarrow> exn + 'm Column" where
  "ListColumn_new m p =
     (case poco_check_ptr p of Inl ex \<Rightarrow> Inl ex
      | Inr a \<Rightarrow> Inr \<lparr>metaColumn = m, pData = a\<rparr>)"

definition ListColumn_copy :: "'m Column \<Rightarrow> 'm Column" where
  "ListColumn_copy col = \<lparr>metaColumn = metaColumn col, pData = pData col\<rparr>"

definition swap_list :: "'m Column \<Rightarrow> 'm Column \<Rightarrow> 'm Column \<times> 'm Column" where
  "swap_list this other =
     (this\<lparr>metaColumn := metaColumn other, pData := pData other\<rparr>,
      other\<lparr>metaColumn := metaColumn this, pData := pData this\<rparr>)"

definition assign_list :: "'m Column \<Rightarrow> 'm Column \<Rightarrow> 'm Column" where
  "assign_list this col = (let tmp = ListColumn_copy col in fst (swap_list this tmp))"

text \<open>
  Both loops of \<open>value\<close> have the shape
  \<open>for (int i = i0; it != end; ++it, ++i) if (i == row) return *it;\<close>.
  \<open>traverse xs i0 row\<close> walks the elements \<open>xs\<close> in iteration order with the counter
  starting at \<open>i0\<close>; \<open>None\<close> means the iterator reached \<open>end\<close>. The counter is an
  \<open>int\<close>: \<open>++i\<close> is addition on 32 bits, and \<open>i == row\<close> compares after converting \<open>i\<close>
  to \<open>std::size_t\<close>.
\<close>

fun traverse :: "'a list \<Rightarrow> c_int \<Rightarrow> size_t \<Rightarrow> 'a option" where
  "traverse [] i row = None"
| "traverse (x # xs) i row = (if scast i = row then Some x else traverse xs (i + 1) row)"

text \<open>
  \<open>value\<close>: forwards from \<open>begin()\<close> with \<open>i = 0\<close> when \<open>row <= size() / 2\<close>, otherwise
  \<open>row = size() - row\<close> (unsigned subtraction) and backwards from \<open>rbegin()\<close> with
  \<open>i = 1\<close>. When the loop taken ends without returning, the function throws
  \<open>RangeException("Invalid row number.")\<close>.
\<close>

definition value_list ::
  "'a heap \<Rightarrow> 'm Column \<Rightarrow> size_t \<Rightarrow> (exn + 'a) \<times> 'a heap \<times> 'm Column" where
  "value_list h c row =
     (let xs = h (pData c);
          n = (of_nat (length xs) :: size_t);
          found = (if row \<le> n div 2 then traverse xs 0 row
                   else traverse (rev xs) 1 (n - row))
      in case found of
           Some v \<Rightarrow> (Inr v, h, c)
         | None \<Rightarrow> (Inl (RangeException (Text ''Invalid row number.'')), h, c))"

definition op_index_list ::
  "'a heap \<Rightarrow> 'm Column \<Rightarrow> size_t \<Rightarrow> (exn + 'a) \<times> 'a heap \<times> 'm Column" where
  "op_index_list h c row = value_list h c row"

definition rowCount_list :: "'a heap \<Rightarrow> 'm Column \<Rightarrow> size_t" where
  "rowCount_list h c = of_nat (length (h (pData c)))"

text \<open>\<open>_pData->clear()\<close>.\<close>

definition reset_list :: "'a heap \<Rightarrow> 'm Column \<Rightarrow> 'a heap \<times> 'm Column" where
  "reset_list h c = (h(pData c := []), c)"


section \<open>Sequences of operations on one column\<close>

text \<open>
  A client reads a row, changes the container through \<open>data()\<close>, or resets the column.
  \<open>run\<close> performs such operations one after the other on the heap and the column.
\<close>

datatype 'a action = Value size_t | Mutate "'a list \<Rightarrow> 'a list" | Reset

fun step_vec :: "'a action \<Rightarrow> 'a heap \<times> 'm Column \<Rightarrow> 'a heap \<times> 'm Column" where
  "step_vec (Value row) (h, c) = snd (value_vec h c row)"
| "step_vec (Mutate f) (h, c) = (data_mutate f h c, c)"
| "step_vec Reset (h, c) = reset_vec h c"

fun step_bool :: "bool action \<Rightarrow> bool heap \<times> 'm BoolColumn \<Rightarrow> bool heap \<times> 'm BoolColumn" where
  "step_bool (Value row) (h, c) = snd (value_bool h c row)"
| "step_bool (Mutate f) (h, c) = (data_mutate f h c, c)"
| "step_bool Reset (h, c) = reset_bool h c"

fun step_list :: "'a action \<Rightarrow> 'a heap \<times> 'm Column \<Rightarrow> 'a heap \<times> 'm Column" where
  "step_list (Value row) (h, c) = snd (value_list h c row)"
| "step_list (Mutate f) (h, c) = (data_mutate f h c, c)"
| "step_list Reset (h, c) = reset_list h c"

fun run :: "('op \<Rightarrow> 's \<Rightarrow> 's) \<Rightarrow> 'op list \<Rightarrow> 's \<Rightarrow> 's" where
  "run step [] s = s"
| "run step (a # as) s = run step as (step a s)"

text \<open>
  A client of a boolean column that reads rows and, in between, appends further elements
  to the vector through \<open>data()\<close> (which makes the next read resize the shadow deque).
  \<open>play\<close> performs such a script and collects the results of the reads in order;
  \<open>reads\<close> lists the rows that the script reads.
\<close>

datatype access = Read size_t | Grow "bool list"

fun play ::
  "bool heap \<Rightarrow> 'm BoolColumn \<Rightarrow> access list \<Rightarrow> (exn + bool) list \<times> bool heap \<times> 'm BoolColumn" where
  "play h c [] = ([], h, c)"
| "play h c (Read r # script) =
     (case value_bool h c r of
        (res, h', c') \<Rightarrow> (case play h' c' script of (ress, s) \<Rightarrow> (res # ress, s)))"
| "play h c (Grow ys # script) = play (data_mutate (\<lambda>xs. xs @ ys) h c) c script"

fun reads :: "access list \<Rightarrow> size_t list" where
  "reads [] = []"
| "reads (Read r # script) = r # reads script"
| "reads (Grow ys # script) = reads script"

text \<open>The largest value of a \<open>std::size_t\<close>.\<close>

definition SIZE_MAX :: nat where
  "SIZE_MAX = 18446744073709551615"

text \<open>The largest value of an \<open>int\<close>.\<close>

definition INT_MAX :: nat where
  "INT_MAX = 2147483647"


section \<open>Auxiliary facts\<close>

lemma uint_less_of_unat_less: "unat w < n \<Longrightarrow> uint w < int n"
  by (simp only: uint_nat of_nat_less_iff)

lemma sint_small: "unat (i :: c_int) < 2 ^ 31 \<Longrightarrow> sint i = uint i"
proof -
  assume h: "unat i < 2 ^ 31"
  have "uint i < int (2 ^ 31)" using h by (rule uint_less_of_unat_less)
  then have "uint i < 2 ^ 31" by simp
  moreover have "- (2 ^ 31) \<le> uint i"
    by (rule order_trans[of _ 0]) simp_all
  ultimately have "signed_take_bit 31 (uint i) = uint i"
    by (simp only: signed_take_bit_int_eq_self_iff)
  then show ?thesis by (simp add: sint_uint)
qed

lemma scast_small_eq_iff:
  "unat (i :: c_int) < 2 ^ 31 \<Longrightarrow> ((scast i :: size_t) = row) = (unat i = unat row)"
proof -
  assume h: "unat i < 2 ^ 31"
  have "sint i = uint i" using h by (rule sint_small)
  then have "(scast i :: size_t) = ucast i" by (simp only: scast_eq ucast_eq)
  moreover have "uint (ucast i :: size_t) = uint i"
    by (rule uint_up_ucast) (simp add: is_up)
  then have "unat (ucast i :: size_t) = unat i"
    by (simp only: unat_eq_nat_uint)
  ultimately show ?thesis by (metis word_unat_eq_iff)
qed

lemma unat_incr_small: "unat (i :: c_int) < 2 ^ 31 \<Longrightarrow> unat (i + 1) = unat i + 1"
  by (simp add: unat_word_ariths)

text \<open>
  What a loop computes while its counter stays within the non-negative \<open>int\<close> values:
  the element whose distance from the start is \<open>row - i0\<close>, if there is one.
\<close>

lemma traverse_eq:
  "unat i + length xs \<le> 2 ^ 31 \<Longrightarrow>
   traverse xs i row =
     (if unat i \<le> unat row \<and> unat row < unat i + length xs
      then Some (xs ! (unat row - unat i)) else None)"
proof (induction xs arbitrary: i)
  case Nil
  then show ?case by simp
next
  case (Cons x xs)
  have i: "unat i < 2 ^ 31" using Cons.prems by simp
  have 1: "((scast i :: size_t) = row) = (unat i = unat row)"
    using i by (rule scast_small_eq_iff)
  have 2: "unat (i + 1) = unat i + 1"
    using i by (rule unat_incr_small)
  have 3: "unat (i + 1) + length xs \<le> 2 ^ 31"
    using Cons.prems 2 by simp
  show ?case
    using Cons.IH[OF 3] 1 2 by (auto simp: nth_Cons')
qed

lemma INT_MAX_less: "N \<le> INT_MAX \<Longrightarrow> N < 2 ^ 31"
  by (simp add: INT_MAX_def)

lemma unat_size_small: "N \<le> INT_MAX \<Longrightarrow> unat (of_nat N :: size_t) = N"
proof -
  assume "N \<le> INT_MAX"
  then have "N < 2 ^ 31" by (rule INT_MAX_less)
  also have "(2::nat) ^ 31 < 2 ^ 64" by simp
  finally have "N mod 2 ^ 64 = N" by simp
  then show ?thesis by (simp add: unat_of_nat)
qed

lemma traverse_forward:
  assumes "length xs \<le> INT_MAX"
  shows "traverse xs 0 row = (if unat row < length xs then Some (xs ! unat row) else None)"
proof -
  have "unat (0 :: c_int) + length xs \<le> 2 ^ 31"
    using INT_MAX_less[OF assms] by simp
  from traverse_eq[OF this, of row] show ?thesis by simp
qed

lemma traverse_backward:
  assumes "length xs \<le> INT_MAX"
  shows "traverse (rev xs) 1 r =
           (if 1 \<le> unat r \<and> unat r \<le> length xs then Some (xs ! (length xs - unat r)) else None)"
proof -
  have "unat (1 :: c_int) + length (rev xs) \<le> 2 ^ 31"
    using assms by (simp add: INT_MAX_def)
  from traverse_eq[OF this, of r] show ?thesis
    by (auto simp: rev_nth Suc_diff_Suc)
qed

text \<open>\<open>size() - row\<close> in unsigned arithmetic: it wraps when \<open>row\<close> exceeds the size.\<close>

lemma unat_size_minus_row:
  assumes "N \<le> INT_MAX"
  shows "unat ((of_nat N :: size_t) - row) =
           (if unat row \<le> N then N - unat row else N + 2 ^ 64 - unat row)"
  using unat_size_small[OF assms] by (simp add: unat_sub_if_size word_size)

lemma traverse_backward_finds:
  assumes len: "length xs \<le> INT_MAX" and row: "unat row < length xs"
  shows "traverse (rev xs) 1 (of_nat (length xs) - row) = Some (xs ! unat row)"
proof -
  have "unat ((of_nat (length xs) :: size_t) - row) = length xs - unat row"
    using row by (simp add: unat_size_minus_row[OF len])
  then show ?thesis
    using row by (simp add: traverse_backward[OF len])
qed

lemma traverse_backward_exhausts:
  assumes len: "length xs \<le> INT_MAX" and row: "length xs \<le> unat row"
  shows "traverse (rev xs) 1 (of_nat (length xs) - row) = None"
proof -
  have "unat (row :: size_t) < 2 ^ 64" using unsigned_less[of row] by simp
  then have "unat ((of_nat (length xs) :: size_t) - row) = 0
      \<or> length xs < unat ((of_nat (length xs) :: size_t) - row)"
    using row by (auto simp: unat_size_minus_row[OF len])
  then show ?thesis by (auto simp: traverse_backward[OF len])
qed

lemma value_list_in_range:
  assumes len: "length (h (pData c)) \<le> INT_MAX" and row: "unat row < length (h (pData c))"
  shows "value_list h c row = (Inr (h (pData c) ! unat row), h, c)"
proof (cases "row \<le> of_nat (length (h (pData c))) div 2")
  case True
  then show ?thesis
    using row by (simp add: value_list_def Let_def traverse_forward[OF len])
next
  case False
  then show ?thesis
    using traverse_backward_finds[OF len row] by (simp add: value_list_def Let_def)
qed

lemma value_list_out_of_range:
  assumes len: "length (h (pData c)) \<le> INT_MAX" and row: "length (h (pData c)) \<le> unat row"
  shows "value_list h c row = (Inl (RangeException (Text ''Invalid row number.'')), h, c)"
  using row traverse_backward_exhausts[OF len row]
  by (simp add: value_list_def Let_def traverse_forward[OF len])


lemma value_list_state: "snd (value_list h c row) = (h, c)"
  by (simp add: value_list_def Let_def split: option.split)

lemma value_list_no_native: "fst (value_list h c row) \<noteq> Inl (out_of_range m)"
  by (simp add: value_list_def Let_def split: option.split)

text \<open>The generic \<open>value\<close> in closed form.\<close>

lemma value_vec_eq:
  "value_vec h c row =
     (if unat row < length (h (pData c)) then Inr (h (pData c) ! unat row)
      else Inl (RangeException Std_what), h, c)"
  by (simp add: value_vec_def at_def catch_out_of_range_def)

text \<open>
  The boolean \<open>value\<close> in closed form. After the conditional \<open>resize\<close> the shadow deque
  is the old one followed by as many \<open>False\<close> as it was short of the vector.
\<close>

lemma value_bool_in_range:
  assumes "unat row < length (h (pData c))"
  shows "value_bool h c row =
           (Inr (h (pData c) ! unat row), h,
            c\<lparr>deque := (deque c @ replicate (length (h (pData c)) - length (deque c)) False)
                           [unat row := h (pData c) ! unat row]\<rparr>)"
  using assms by (simp add: value_bool_def at_def resize_def Let_def)

lemma value_bool_out_of_range:
  assumes "length (h (pData c)) \<le> unat row"
  shows "value_bool h c row =
           (Inl (RangeException Std_what), h,
            c\<lparr>deque := deque c @ replicate (length (h (pData c)) - length (deque c)) False\<rparr>)"
  using assms by (simp add: value_bool_def at_def resize_def Let_def catch_out_of_range_def)

lemma value_bool_state:
  "length (h (pData c)) \<le> length (deque (snd (snd (value_bool h c row))))
   \<and> fst (snd (value_bool h c row)) = h
   \<and> pData (snd (snd (value_bool h c row))) = pData c
   \<and> metaColumn (snd (snd (value_bool h c row))) = metaColumn c"
proof (cases "unat row < length (h (pData c))")
  case True
  then show ?thesis by (simp add: value_bool_in_range)
next
  case False
  then show ?thesis by (simp add: value_bool_out_of_range)
qed

lemma value_bool_no_native: "fst (value_bool h c row) \<noteq> Inl (out_of_range m)"
proof (cases "unat row < length (h (pData c))")
  case True
  then show ?thesis by (simp add: value_bool_in_range)
next
  case False
  then show ?thesis by (simp add: value_bool_out_of_range)
qed


text \<open>A container size that fits \<open>std::size_t\<close> is returned by \<open>size()\<close> as it is.\<close>

lemma unat_size: "N \<le> SIZE_MAX \<Longrightarrow> unat (of_nat N :: size_t) = N"
  by (simp add: SIZE_MAX_def unat_of_nat)

text \<open>\<open>reset\<close> leaves the empty container at the address.\<close>

lemma reset_vec_empties: "(case reset_vec h c of (h', c') \<Rightarrow> rowCount_vec h' c' = 0 \<and> data h' c' = [])"
  by (simp add: reset_vec_def rowCount_vec_def data_def)

lemma reset_bool_empties: "(case reset_bool h c of (h', c') \<Rightarrow> rowCount_bool h' c' = 0 \<and> data h' c' = [])"
  by (simp add: reset_bool_def rowCount_bool_def data_def)

lemma reset_list_empties: "(case reset_list h c of (h', c') \<Rightarrow> rowCount_list h' c' = 0 \<and> data h' c' = [])"
  by (simp add: reset_list_def rowCount_list_def data_def)

text \<open>What a script of reads and appends returns on the boolean variant.\<close>

lemma play_reads:
  "\<forall>r \<in> set (reads script). unat r < length xs \<Longrightarrow> h (pData c) = xs @ zs \<Longrightarrow>
   fst (play h c script) = map (\<lambda>r. Inr (xs ! unat r)) (reads script)"
proof (induction script arbitrary: h c zs)
  case Nil
  then show ?case by simp
next
  case (Cons a script)
  show ?case
  proof (cases a)
    case (Read r)
    have r: "unat r < length xs" using Cons.prems(1) Read by simp
    then have r': "unat r < length (h (pData c))" using Cons.prems(2) by simp
    obtain c' where v: "value_bool h c r = (Inr (xs ! unat r), h, c')" and c': "pData c' = pData c"
      using r r' by (simp add: value_bool_in_range Cons.prems(2) nth_append)
    have "h (pData c') = xs @ zs" using Cons.prems(2) c' by simp
    moreover have "\<forall>r \<in> set (reads script). unat r < length xs"
      using Cons.prems(1) Read by simp
    ultimately have "fst (play h c' script) = map (\<lambda>r. Inr (xs ! unat r)) (reads script)"
      by (rule Cons.IH[rotated])
    then show ?thesis using Read v by (simp add: case_prod_beta)
  next
    case (Grow ys)
    have "data_mutate (\<lambda>xs. xs @ ys) h c (pData c) = xs @ (zs @ ys)"
      using Cons.prems(2) by (simp add: data_mutate_def)
    moreover have "\<forall>r \<in> set (reads script). unat r < length xs"
      using Cons.prems(1) Grow by simp
    ultimately have "fst (play (data_mutate (\<lambda>xs. xs @ ys) h c) c script)
        = map (\<lambda>r. Inr (xs ! unat r)) (reads script)"
      by (rule Cons.IH[rotated])
    then show ?thesis using Grow by simp
  qed
qed

lemma reads_in_order: "reads (map (\<lambda>i. Read (of_nat i)) is) = map of_nat is"
  by (induction "is") simp_all

lemma in_order_elements:
  assumes "length xs \<le> SIZE_MAX"
  shows "map (\<lambda>r. Inr (xs ! unat r)) (map of_nat [0..<length xs] :: size_t list) = map Inr xs"
proof -
  have "\<And>i. i < length xs \<Longrightarrow> unat (of_nat i :: size_t) = i"
    using assms by (simp add: unat_size)
  then have "map (\<lambda>r. Inr (xs ! unat r)) (map of_nat [0..<length xs] :: size_t list)
      = map (\<lambda>i. Inr (xs ! i)) [0..<length xs]"
    by simp
  also have "\<dots> = map Inr (map (\<lambda>i. xs ! i) [0..<length xs])" by simp
  also have "\<dots> = map Inr xs" by (simp only: map_nth)
  finally show ?thesis .
qed

text \<open>Copy construction and assignment give the new column the handle of the source.\<close>

lemma copy_vec_handle:
  "c2 = Column_copy c1 \<or> c2 = assign_vec c0 c1 \<Longrightarrow> pData c2 = pData c1 \<and> metaColumn c2 = metaColumn c1"
  by (auto simp: Column_copy_def assign_vec_def swap_vec_def)

lemma copy_bool_handle:
  "c2 = BoolColumn_copy h c1 \<or> c2 = assign_bool h c0 c1 \<Longrightarrow>
     pData c2 = pData c1 \<and> metaColumn c2 = metaColumn c1"
  by (auto simp: BoolColumn_copy_def assign_bool_def swap_bool_def)

lemma copy_list_handle:
  "c2 = ListColumn_copy c1 \<or> c2 = assign_list c0 c1 \<Longrightarrow> pData c2 = pData c1 \<and> metaColumn c2 = metaColumn c1"
  by (auto simp: ListColumn_copy_def assign_list_def swap_list_def)

lemma value_bool_result:
  "fst (value_bool h c row) =
     (if unat row < length (h (pData c)) then Inr (h (pData c) ! unat row)
      else Inl (RangeException Std_what))"
  by (simp add: value_bool_in_range value_bool_out_of_range)







text \<open>After \<open>reset\<close> through one handle, every column with that handle sees the empty container.\<close>

lemma reset_vec_shared:
  assumes "pData r = pData w"
  shows "rowCount_vec (fst (reset_vec h w)) r = 0
       \<and> fst (value_vec (fst (reset_vec h w)) r row) = Inl (RangeException Std_what)"
  by (simp add: reset_vec_def rowCount_vec_def value_vec_eq assms)

lemma reset_bool_shared:
  assumes "pData r = pData w"
  shows "rowCount_bool (fst (reset_bool h w)) r = 0
       \<and> fst (value_bool (fst (reset_bool h w)) r row) = Inl (RangeException Std_what)"
  by (simp add: reset_bool_def rowCount_bool_def value_bool_result assms)

lemma reset_list_shared:
  assumes "pData r = pData w"
  shows "rowCount_list (fst (reset_list h w)) r = 0
       \<and> fst (value_list (fst (reset_list h w)) r row)
           = Inl (RangeException (Text ''Invalid row number.''))"
  by (simp add: reset_list_def rowCount_list_def value_list_def assms)

lemma reset_handles:
  "pData (snd (reset_vec h w)) = pData w"
  "pData (snd (reset_bool hb wb)) = pData wb"
  "pData (snd (reset_list h w)) = pData w"
  by (simp_all add: reset_vec_def reset_bool_def reset_list_def)


text \<open>
  Beyond the non-negative \<open>int\<close> values. A loop finds nothing when no counter value,
  sign-extended, equals \<open>row\<close>. A sign-extended \<open>int\<close> has equal bits 31 and 32, so a
  \<open>row\<close> whose bits 31 and 32 differ is never matched. In the backward loop over
  \<open>2\<^sup>3\<^sup>1\<close> elements the counter wraps to the least \<open>int\<close> at the last element, whose
  sign extension is \<open>2\<^sup>3\<^sup>1 - 2\<^sup>3\<^sup>2\<close> in unsigned 64-bit arithmetic.
\<close>

lemma traverse_no_match:
  "(\<And>k. k < length xs \<Longrightarrow> (scast (i + of_nat k) :: size_t) \<noteq> row) \<Longrightarrow> traverse xs i row = None"
proof (induction xs arbitrary: i)
  case Nil
  then show ?case by simp
next
  case (Cons x xs)
  have 0: "(scast i :: size_t) \<noteq> row" using Cons.prems[of 0] by simp
  have "\<And>k. k < length xs \<Longrightarrow> (scast (i + 1 + of_nat k) :: size_t) \<noteq> row"
    using Cons.prems[of "Suc _"] by (simp add: add.assoc)
  then have "traverse xs (i + 1) row = None" by (rule Cons.IH)
  then show ?case using 0 by simp
qed

lemma traverse_snoc:
  "traverse (ys @ [z]) i row =
     (case traverse ys i row of Some v \<Rightarrow> Some v
      | None \<Rightarrow> if scast (i + of_nat (length ys)) = row then Some z else None)"
  by (induction ys arbitrary: i) (simp_all add: add.assoc)

lemma scast_sign_bits: "bit (scast (w :: c_int) :: size_t) 32 = bit (scast w :: size_t) 31"
  by (auto simp add: bit_word_scast_iff dest: bit_imp_le_length)

lemma traverse_sign_gap:
  assumes "bit row 31 \<noteq> bit row 32"
  shows "traverse xs i row = None"
proof (rule traverse_no_match)
  fix k
  show "(scast (i + of_nat k) :: size_t) \<noteq> row"
    using assms scast_sign_bits[of "i + of_nat k"] by auto
qed

lemma value_list_forward_sign_gap:
  assumes "row \<le> of_nat (length (h (pData c))) div 2" and "bit row 31 \<noteq> bit row 32"
  shows "value_list h c row = (Inl (RangeException (Text ''Invalid row number.'')), h, c)"
  using assms(1) by (simp add: value_list_def Let_def traverse_sign_gap[OF assms(2)])

lemma unat_counter: "k < 2147483647 \<Longrightarrow> unat (1 + of_nat k :: c_int) = 1 + k"
  by (simp add: unat_word_ariths unat_of_nat)

lemma traverse_backward_wrap:
  assumes "length ys = 2147483647"
  shows "traverse (rev (z # ys)) 1 (2147483648 - 4294967296) = Some z"
proof -
  let ?r = "2147483648 - 4294967296 :: size_t"
  have "(scast (1 + of_nat k :: c_int) :: size_t) \<noteq> ?r" if "k < length (rev ys)" for k
  proof -
    have k: "k < 2147483647" using that assms by simp
    then have u: "unat (1 + of_nat k :: c_int) = 1 + k" by (rule unat_counter)
    then have "unat (1 + of_nat k :: c_int) < 2 ^ 31" using k by simp
    then have "((scast (1 + of_nat k :: c_int) :: size_t) = ?r) = (unat (1 + of_nat k :: c_int) = unat ?r)"
      by (rule scast_small_eq_iff)
    then show ?thesis using u k by simp
  qed
  then have "traverse (rev ys) 1 ?r = None" by (rule traverse_no_match)
  then show ?thesis by (simp add: traverse_snoc assms)
qed

lemma value_list_backward_wrap:
  assumes "h (pData c) = z # ys" and "length ys = 2147483647"
  shows "value_list h c 4294967296 = (Inr z, h, c)"
proof -
  have t: "traverse (rev ys @ [z]) 1 (- 2147483648) = Some z"
    using traverse_backward_wrap[OF assms(2), of z] by simp
  show ?thesis
    by (simp add: value_list_def Let_def assms t)
qed

section \<open>Traversal of the list variant\<close>

text \<open>
  Lists of at most \<open>INT_MAX\<close> elements: every counter value that a loop compares with
  \<open>row\<close> is a non-negative \<open>int\<close>. For every \<open>row\<close> below the size the loop that \<open>value\<close>
  takes returns the element at position \<open>row\<close>, so \<open>value\<close> returns it and the final
  \<open>throw\<close> is not reached; for every \<open>row\<close> at or above the size, including those for
  which \<open>size() - row\<close> wraps around, the forward loop and the backward loop both run to
  the end without a match, and \<open>value\<close> fails with the \<open>RangeException\<close> that it
  constructs itself with the text \<open>Invalid row number.\<close>.
\<close>

lemma value_list_traversal:
  assumes "length (data h c) \<le> INT_MAX"
  shows "(unat row < length (data h c) \<longrightarrow>
            (if row \<le> of_nat (length (data h c)) div 2 then traverse (data h c) 0 row
             else traverse (rev (data h c)) 1 (of_nat (length (data h c)) - row))
              = Some (data h c ! unat row)
          \<and> fst (value_list h c row) = Inr (data h c ! unat row))
       \<and> (length (data h c) \<le> unat row \<longrightarrow>
            traverse (data h c) 0 row = None
          \<and> traverse (rev (data h c)) 1 (of_nat (length (data h c)) - row) = None
          \<and> fst (value_list h c row) = Inl (RangeException (Text ''Invalid row number.'')))"
proof -
  have len: "length (h (pData c)) \<le> INT_MAX"
    using assms by (simp add: data_def)
  show ?thesis
    using traverse_backward_finds[OF len, of row] traverse_backward_exhausts[OF len, of row]
    by (simp add: data_def traverse_forward[OF len] value_list_in_range[of h c row, OF len]
        value_list_out_of_range[of h c row, OF len])
qed

text \<open>
  Claim C5 says that in the list-backed variant, for every \<open>row\<close> below the size a
  traversal finds the element and the final \<open>throw\<close> is never reached, and that for every
  \<open>row\<close> at or above the size both traversals exhaust and \<open>RangeException\<close> is raised.
  The code does not do so on every list, because the loop counter is an \<open>int\<close>. On a
  list of \<open>2\<^sup>3\<^sup>2 + 2\<close> elements, \<open>row = 2\<^sup>3\<^sup>1 + 1\<close> is below the size, the forward loop
  taken for it finds nothing and \<open>value\<close> reaches the final \<open>throw\<close>. On a list of
  \<open>2\<^sup>3\<^sup>1\<close> elements, \<open>row = 2\<^sup>3\<^sup>2\<close> is above the size, the backward loop returns the
  first element of the list and \<open>value\<close> returns it.
\<close>

theorem list_traversal_beyond_int:
  "traverse (replicate 4294967298 True) 0 2147483649 = None
 \<and> fst (value_list (\<lambda>a. replicate 4294967298 True) \<lparr>metaColumn = (), pData = 0\<rparr> 2147483649)
     = Inl (RangeException (Text ''Invalid row number.''))
 \<and> traverse (rev (True # replicate 2147483647 False)) 1
       (of_nat (length (True # replicate 2147483647 False)) - 4294967296) = Some True
 \<and> fst (value_list (\<lambda>a. True # replicate 2147483647 False) \<lparr>metaColumn = (), pData = 0\<rparr> 4294967296)
     = Inr True"
proof -
  have 1: "traverse (replicate 4294967298 True) 0 2147483649 = None"
    by (rule traverse_sign_gap) simp
  have 2: "fst (value_list (\<lambda>a. replicate 4294967298 True) \<lparr>metaColumn = (), pData = 0\<rparr> 2147483649)
     = Inl (RangeException (Text ''Invalid row number.''))"
    by (subst value_list_forward_sign_gap) simp_all
  have 3: "traverse (rev (True # replicate 2147483647 False)) 1 (2147483648 - 4294967296) = Some True"
    by (rule traverse_backward_wrap) simp
  have 4: "value_list (\<lambda>a. True # replicate 2147483647 False) \<lparr>metaColumn = (), pData = 0\<rparr> 4294967296
     = (Inr True, \<lambda>a. True # replicate 2147483647 False, \<lparr>metaColumn = (), pData = 0\<rparr>)"
    by (rule value_list_backward_wrap[where ys = "replicate 2147483647 False"]) simp_all
  show ?thesis using 1 2 3 4 by simp
qed


section \<open>Reading a row\<close>

text \<open>
  For the generic and the boolean variant and every \<open>row\<close> below the number of elements
  of the backing container, \<open>value(row)\<close> returns the element that the container holds
  at position \<open>row\<close>. The list variant does so for lists of at most \<open>INT_MAX\<close>
  elements, and then columns of different variants over containers with the same content
  return the same value for the same row.
\<close>

lemma value_returns_stored_element:
  "(unat row < length (data hv cv) \<longrightarrow>
      fst (value_vec hv cv row) = Inr (data hv cv ! unat row))
 \<and> (unat row < length (data hb cb) \<longrightarrow>
      fst (value_bool hb cb row) = Inr (data hb cb ! unat row))
 \<and> (unat row < length (data hl cl) \<and> length (data hl cl) \<le> INT_MAX \<longrightarrow>
      fst (value_list hl cl row) = Inr (data hl cl ! unat row))
 \<and> (data hv cv = data hl cl \<and> unat row < length (data hl cl)
        \<and> length (data hl cl) \<le> INT_MAX \<longrightarrow>
      fst (value_vec hv cv row) = fst (value_list hl cl row))
 \<and> (data hbv cbv = data hb cb \<and> data hbl cbl = data hb cb \<and> unat row < length (data hb cb)
        \<and> length (data hb cb) \<le> INT_MAX \<longrightarrow>
      fst (value_vec hbv cbv row) = fst (value_bool hb cb row)
    \<and> fst (value_list hbl cbl row) = fst (value_bool hb cb row))"
proof -
  have vec: "\<And>h c. unat row < length (data h c) \<Longrightarrow>
      fst (value_vec h c row) = Inr (data h c ! unat row)"
    by (simp add: data_def value_vec_eq)
  have bool: "unat row < length (data hb cb) \<Longrightarrow>
      fst (value_bool hb cb row) = Inr (data hb cb ! unat row)"
    by (simp add: data_def value_bool_in_range)
  have list: "\<And>h c. unat row < length (data h c) \<Longrightarrow> length (data h c) \<le> INT_MAX \<Longrightarrow>
      fst (value_list h c row) = Inr (data h c ! unat row)"
    by (simp add: data_def value_list_in_range)
  show ?thesis
    using vec[of hv cv] vec[of hbv cbv] bool list[of hl cl] list[of hbl cbl] by simp
qed

text \<open>
  Claim C1 says that for every column of any of the three variants and every \<open>row\<close>
  below \<open>rowCount()\<close>, \<open>value(row)\<close> returns the element at position \<open>row\<close>, and that
  the three variants return the same value given the same content. The list variant
  does not do so on every list: over \<open>2\<^sup>3\<^sup>2\<close> elements, all \<open>True\<close>, and for the row
  \<open>2\<^sup>3\<^sup>1\<close>, the generic and the boolean variant return \<open>True\<close> and the list variant
  throws \<open>RangeException\<close>.
\<close>

theorem list_value_differs_from_vector:
  "fst (value_vec (\<lambda>a. replicate 4294967296 True) \<lparr>metaColumn = (), pData = 0\<rparr> 2147483648) = Inr True
 \<and> fst (value_bool (\<lambda>a. replicate 4294967296 True) \<lparr>metaColumn = (), pData = 0, deque = []\<rparr> 2147483648)
     = Inr True
 \<and> fst (value_list (\<lambda>a. replicate 4294967296 True) \<lparr>metaColumn = (), pData = 0\<rparr> 2147483648)
     = Inl (RangeException (Text ''Invalid row number.''))"
proof -
  have "fst (value_list (\<lambda>a. replicate 4294967296 True) \<lparr>metaColumn = (), pData = 0\<rparr> 2147483648)
     = Inl (RangeException (Text ''Invalid row number.''))"
    by (subst value_list_forward_sign_gap) simp_all
  then show ?thesis
    by (simp add: value_vec_eq value_bool_result)
qed

text \<open>
  For the generic and the boolean variant and every \<open>row\<close> at or above the number of
  elements, \<open>value(row)\<close> fails with \<open>RangeException\<close> and \<open>rowCount()\<close> is the same
  after the call as before; the list variant does so for lists of at most \<open>INT_MAX\<close>
  elements. For no row at all does \<open>value\<close> let \<open>std::out_of_range\<close> escape.
\<close>

lemma value_out_of_range_fails:
  "(length (data hv cv) \<le> unat row \<longrightarrow>
      fst (value_vec hv cv row) = Inl (RangeException Std_what)
    \<and> (case value_vec hv cv row of (res, h', c') \<Rightarrow> rowCount_vec h' c' = rowCount_vec hv cv))
 \<and> (length (data hb cb) \<le> unat row \<longrightarrow>
      fst (value_bool hb cb row) = Inl (RangeException Std_what)
    \<and> (case value_bool hb cb row of (res, h', c') \<Rightarrow> rowCount_bool h' c' = rowCount_bool hb cb))
 \<and> (length (data hl cl) \<le> unat row \<and> length (data hl cl) \<le> INT_MAX \<longrightarrow>
      fst (value_list hl cl row) = Inl (RangeException (Text ''Invalid row number.''))
    \<and> (case value_list hl cl row of (res, h', c') \<Rightarrow> rowCount_list h' c' = rowCount_list hl cl))
 \<and> fst (value_vec hv cv row) \<noteq> Inl (out_of_range m)
 \<and> fst (value_bool hb cb row) \<noteq> Inl (out_of_range m)
 \<and> fst (value_list hl cl row) \<noteq> Inl (out_of_range m)"
proof -
  have vec: "length (data hv cv) \<le> unat row \<Longrightarrow>
      value_vec hv cv row = (Inl (RangeException Std_what), hv, cv)"
    by (simp add: data_def value_vec_eq)
  have bool: "length (data hb cb) \<le> unat row \<Longrightarrow>
      fst (value_bool hb cb row) = Inl (RangeException Std_what)
    \<and> (case value_bool hb cb row of (res, h', c') \<Rightarrow> rowCount_bool h' c' = rowCount_bool hb cb)"
    by (simp add: data_def value_bool_out_of_range rowCount_bool_def)
  have list: "length (data hl cl) \<le> unat row \<Longrightarrow> length (data hl cl) \<le> INT_MAX \<Longrightarrow>
      value_list hl cl row = (Inl (RangeException (Text ''Invalid row number.'')), hl, cl)"
    by (simp add: data_def value_list_out_of_range)
  have native: "fst (value_vec hv cv row) \<noteq> Inl (out_of_range m)"
    by (simp add: value_vec_eq)
  show ?thesis
    using vec bool list native value_bool_no_native[of hb cb row m]
      value_list_no_native[of hl cl row m]
    by simp
qed

text \<open>
  Claim C2 says that for every column of any of the three variants and every \<open>row\<close> at
  or above \<open>rowCount()\<close>, \<open>value(row)\<close> fails with \<open>RangeException\<close>. The list variant
  does not do so on every list: over a list of \<open>2\<^sup>3\<^sup>1\<close> elements that starts with 7, the
  row \<open>2\<^sup>3\<^sup>2\<close> is above the number of elements and \<open>value\<close> returns 7.
\<close>

theorem list_value_returns_for_row_beyond_size:
  "length (data (\<lambda>a. 7 # replicate 2147483647 (0 :: int)) \<lparr>metaColumn = (), pData = 0\<rparr>)
     \<le> unat (4294967296 :: size_t)
 \<and> fst (value_list (\<lambda>a. 7 # replicate 2147483647 (0 :: int)) \<lparr>metaColumn = (), pData = 0\<rparr> 4294967296)
     = Inr 7"
proof -
  have "value_list (\<lambda>a. 7 # replicate 2147483647 (0 :: int)) \<lparr>metaColumn = (), pData = 0\<rparr> 4294967296
     = (Inr 7, \<lambda>a. 7 # replicate 2147483647 (0 :: int), \<lparr>metaColumn = (), pData = 0\<rparr>)"
    by (rule value_list_backward_wrap[where ys = "replicate 2147483647 0"]) simp_all
  then show ?thesis by (simp add: data_def)
qed

text \<open>
  Claim C6. After any call of \<open>value\<close> on the boolean variant, whether it returns or
  throws, the shadow deque is at least as long as the backing vector.
\<close>

theorem shadow_covers_vector:
  "(case value_bool h c row of (res, h', c') \<Rightarrow> length (data h' c') \<le> length (deque c'))"
  using value_bool_state[of h c row] by (simp add: data_def case_prod_beta)

theorem shadow_covers_vector_witness:
  "(case value_bool (\<lambda>a. [True, False, True]) \<lparr>metaColumn = (), pData = 0, deque = [True]\<rparr> 7
    of (res, h', c') \<Rightarrow> length (data h' c') \<le> length (deque c'))"
  by (rule shadow_covers_vector)

text \<open>
  Claim C7. A call \<open>value(row)\<close> with \<open>row\<close> at or above the number of elements leaves
  the heap and the column object as they were in the generic and in the list variant. In
  the boolean variant it leaves the heap, the metadata, the handle and hence \<open>rowCount()\<close>
  as they were, and the only member that may differ is the shadow deque, which is the
  old one extended by \<open>False\<close> up to the length of the vector.
\<close>

theorem failing_value_frame:
  "(length (data hv cv) \<le> unat row \<longrightarrow> snd (value_vec hv cv row) = (hv, cv))
 \<and> (length (data hl cl) \<le> unat row \<longrightarrow> snd (value_list hl cl row) = (hl, cl))
 \<and> (length (data hb cb) \<le> unat row \<longrightarrow>
      (case value_bool hb cb row of (res, h', c') \<Rightarrow>
         h' = hb \<and> data h' c' = data hb cb \<and> rowCount_bool h' c' = rowCount_bool hb cb
       \<and> c' = cb\<lparr>deque := deque cb @ replicate (length (data hb cb) - length (deque cb)) False\<rparr>))"
  by (simp add: data_def value_vec_eq value_list_state value_bool_out_of_range rowCount_bool_def)

theorem failing_value_frame_witness:
  "snd (value_vec (\<lambda>a. [10, 20, 30 :: int]) \<lparr>metaColumn = (), pData = 0\<rparr> 3)
     = (\<lambda>a. [10, 20, 30 :: int], \<lparr>metaColumn = (), pData = 0\<rparr>)
 \<and> snd (value_list (\<lambda>a. [10, 20, 30 :: int]) \<lparr>metaColumn = (), pData = 0\<rparr> 3)
     = (\<lambda>a. [10, 20, 30 :: int], \<lparr>metaColumn = (), pData = 0\<rparr>)
 \<and> snd (value_bool (\<lambda>a. [True, False, True]) \<lparr>metaColumn = (), pData = 0, deque = [True]\<rparr> 3)
     = (\<lambda>a. [True, False, True], \<lparr>metaColumn = (), pData = 0, deque = [True, False, False]\<rparr>)"
proof -
  have two: "replicate (2::nat) False = [False, False]"
    by (simp add: numeral_2_eq_2)
  show ?thesis
    using failing_value_frame
      [where row = 3
         and hv = "\<lambda>a. [10, 20, 30 :: int]" and cv = "\<lparr>metaColumn = (), pData = 0\<rparr>"
         and hl = "\<lambda>a. [10, 20, 30 :: int]" and cl = "\<lparr>metaColumn = (), pData = 0\<rparr>"
         and hb = "\<lambda>a. [True, False, True]"
         and cb = "\<lparr>metaColumn = (), pData = 0, deque = [True]\<rparr>"]
    by (simp add: data_def case_prod_beta prod_eq_iff two)
qed

text \<open>
  Claim C10. In each variant \<open>operator [] (row)\<close> gives what \<open>value(row)\<close> gives: the
  same value or the same exception, and the same heap and column afterwards.
\<close>

theorem op_index_is_value:
  "op_index_vec hv cv row = value_vec hv cv row
 \<and> op_index_bool hb cb row = value_bool hb cb row
 \<and> op_index_list hl cl row = value_list hl cl row"
  by (simp add: op_index_vec_def op_index_bool_def op_index_list_def)

theorem op_index_is_value_witness:
  "op_index_vec (\<lambda>a. [10, 20, 30 :: int]) \<lparr>metaColumn = (), pData = 0\<rparr> 1
     = value_vec (\<lambda>a. [10, 20, 30 :: int]) \<lparr>metaColumn = (), pData = 0\<rparr> 1
 \<and> op_index_bool (\<lambda>a. [True, False]) \<lparr>metaColumn = (), pData = 0, deque = []\<rparr> 1
     = value_bool (\<lambda>a. [True, False]) \<lparr>metaColumn = (), pData = 0, deque = []\<rparr> 1
 \<and> op_index_list (\<lambda>a. [10, 20, 30 :: int]) \<lparr>metaColumn = (), pData = 0\<rparr> 1
     = value_list (\<lambda>a. [10, 20, 30 :: int]) \<lparr>metaColumn = (), pData = 0\<rparr> 1"
  by (rule op_index_is_value)


section \<open>Row count\<close>

text \<open>
  Claim C3. In each variant, in every state reached from a constructed column by any
  sequence of reads, changes through \<open>data()\<close> and resets, \<open>rowCount()\<close> is the number
  of elements of the backing container (a number that fits \<open>std::size_t\<close>), and
  \<open>reset()\<close> from any such state leaves \<open>rowCount()\<close> equal to 0 and the container
  empty.
\<close>

theorem rowCount_is_element_count:
  "(Column_new mv (Some pv) = Inr cv \<and> run step_vec actsv (hv, cv) = (hv', cv') \<longrightarrow>
      (length (data hv' cv') \<le> SIZE_MAX \<longrightarrow> unat (rowCount_vec hv' cv') = length (data hv' cv'))
    \<and> (case reset_vec hv' cv' of (h'', c'') \<Rightarrow> rowCount_vec h'' c'' = 0 \<and> data h'' c'' = []))
 \<and> (BoolColumn_new hb mb (Some pb) = Inr cb \<and> run step_bool actsb (hb, cb) = (hb', cb') \<longrightarrow>
      (length (data hb' cb') \<le> SIZE_MAX \<longrightarrow> unat (rowCount_bool hb' cb') = length (data hb' cb'))
    \<and> (case reset_bool hb' cb' of (h'', c'') \<Rightarrow> rowCount_bool h'' c'' = 0 \<and> data h'' c'' = []))
 \<and> (ListColumn_new ml (Some pl) = Inr cl \<and> run step_list actsl (hl, cl) = (hl', cl') \<longrightarrow>
      (length (data hl' cl') \<le> SIZE_MAX \<longrightarrow> unat (rowCount_list hl' cl') = length (data hl' cl'))
    \<and> (case reset_list hl' cl' of (h'', c'') \<Rightarrow> rowCount_list h'' c'' = 0 \<and> data h'' c'' = []))"
  using reset_vec_empties[of hv' cv'] reset_bool_empties[of hb' cb'] reset_list_empties[of hl' cl']
  by (simp add: rowCount_vec_def rowCount_bool_def rowCount_list_def data_def unat_size)

theorem rowCount_is_element_count_witness:
  "unat (rowCount_vec
           (fst (run step_vec [Mutate (\<lambda>xs. xs @ [40]), Value 1, Value 9]
                   (\<lambda>a. [10, 20, 30 :: int], \<lparr>metaColumn = (), pData = 0\<rparr>)))
           \<lparr>metaColumn = (), pData = 0\<rparr>) = 4
 \<and> rowCount_bool
      (fst (run step_bool [Value 1, Reset] (\<lambda>a. [True, False], \<lparr>metaColumn = (), pData = 0, deque = [True, False]\<rparr>)))
      (snd (run step_bool [Value 1, Reset] (\<lambda>a. [True, False], \<lparr>metaColumn = (), pData = 0, deque = [True, False]\<rparr>))) = 0
 \<and> unat (rowCount_list
           (fst (run step_list [Reset, Mutate (\<lambda>xs. 7 # xs)]
                   (\<lambda>a. [10, 20, 30 :: int], \<lparr>metaColumn = (), pData = 0\<rparr>)))
           \<lparr>metaColumn = (), pData = 0\<rparr>) = 1"
  using rowCount_is_element_count
    [where mv = "()" and pv = 0 and cv = "\<lparr>metaColumn = (), pData = 0\<rparr>"
       and hv = "\<lambda>a. [10, 20, 30 :: int]"
       and actsv = "[Mutate (\<lambda>xs. xs @ [40]), Value 1, Value 9]"
       and hv' = "(\<lambda>a. [10, 20, 30 :: int])(0 := [10, 20, 30, 40])"
       and cv' = "\<lparr>metaColumn = (), pData = 0\<rparr>"
       and mb = "()" and pb = 0 and cb = "\<lparr>metaColumn = (), pData = 0, deque = [True, False]\<rparr>"
       and hb = "\<lambda>a. [True, False]"
       and actsb = "[Value 1]"
       and hb' = "\<lambda>a. [True, False]"
       and cb' = "\<lparr>metaColumn = (), pData = 0, deque = [True, False]\<rparr>"
       and ml = "()" and pl = 0 and cl = "\<lparr>metaColumn = (), pData = 0\<rparr>"
       and hl = "\<lambda>a. [10, 20, 30 :: int]"
       and actsl = "[Reset, Mutate (\<lambda>xs. 7 # xs)]"
       and hl' = "(\<lambda>a. [10, 20, 30 :: int])(0 := [7])"
       and cl' = "\<lparr>metaColumn = (), pData = 0\<rparr>"]
  by (simp add: Column_new_def BoolColumn_new_def ListColumn_new_def poco_check_ptr_def value_vec_eq value_bool_in_range
      value_list_state data_mutate_def reset_list_def reset_bool_def data_def SIZE_MAX_def)


section \<open>The shadow deque\<close>

text \<open>
  Claim C4. A boolean column constructed over a vector returns, for every script of
  reads of rows below the original size in any order, also with elements appended to the
  vector between reads so that the shadow deque is resized again and again, exactly the
  original element of each row read; reading the rows \<open>0, \<dots>, N - 1\<close> in turn returns
  the original sequence.
\<close>

theorem bool_round_trip:
  assumes "BoolColumn_new h m (Some p) = Inr c"
  shows "((\<forall>r \<in> set (reads script). unat r < length (h p)) \<longrightarrow>
            fst (play h c script) = map (\<lambda>r. Inr (h p ! unat r)) (reads script))
       \<and> (length (h p) \<le> SIZE_MAX \<longrightarrow>
            fst (play h c (map (\<lambda>i. Read (of_nat i)) [0..<length (h p)])) = map Inr (h p))"
proof -
  have p: "h (pData c) = h p @ []"
    using assms by (auto simp: BoolColumn_new_def poco_check_ptr_def)
  have 1: "\<And>script. \<forall>r \<in> set (reads script). unat r < length (h p) \<Longrightarrow>
      fst (play h c script) = map (\<lambda>r. Inr (h p ! unat r)) (reads script)"
    using p by (rule play_reads[rotated])
  have 2: "fst (play h c (map (\<lambda>i. Read (of_nat i)) [0..<length (h p)])) = map Inr (h p)"
    if len: "length (h p) \<le> SIZE_MAX"
  proof -
    have "\<forall>r \<in> set (map of_nat [0..<length (h p)] :: size_t list). unat r < length (h p)"
      using len by (auto simp: unat_size)
    then show ?thesis
      using 1[of "map (\<lambda>i. Read (of_nat i)) [0..<length (h p)]"]
      by (simp only: reads_in_order in_order_elements[OF len])
  qed
  show ?thesis using 1 2 by blast
qed

theorem bool_round_trip_witness:
  "BoolColumn_new (\<lambda>a. [True, False, True]) () (Some 0)
     = Inr \<lparr>metaColumn = (), pData = 0, deque = [True, False, True]\<rparr>
 \<and> fst (play (\<lambda>a. [True, False, True]) \<lparr>metaColumn = (), pData = 0, deque = [True, False, True]\<rparr>
        [Read 2, Grow [False, False], Read 0, Grow [True], Read 1, Read 0])
     = [Inr True, Inr True, Inr False, Inr True]
 \<and> fst (play (\<lambda>a. [True, False, True]) \<lparr>metaColumn = (), pData = 0, deque = [True, False, True]\<rparr>
        [Read 0, Read 1, Read 2])
     = [Inr True, Inr False, Inr True]"
proof -
  have new: "BoolColumn_new (\<lambda>a. [True, False, True]) () (Some 0)
     = Inr \<lparr>metaColumn = (), pData = 0, deque = [True, False, True]\<rparr>"
    by (simp add: BoolColumn_new_def poco_check_ptr_def)
  have upt: "[0..<3] = [0, 1, 2 :: nat]"
    by (simp add: upt_rec)
  show ?thesis
    using new
      bool_round_trip[OF new, of "[Read 2, Grow [False, False], Read 0, Grow [True], Read 1, Read 0]"]
      bool_round_trip[OF new, of "[]"]
    by (simp add: SIZE_MAX_def upt)
qed


section \<open>Shared backing store\<close>



text \<open>
  Claim C9. In each variant, when two columns share a backing container by copy
  construction or assignment, \<open>reset()\<close> on either of them makes \<open>rowCount()\<close> equal to
  0 and \<open>value(row)\<close> fail with \<open>RangeException\<close> for every row, on the column that was
  reset and on the other one.
\<close>

theorem reset_empties_shared_store:
  assumes "cvc = Column_copy cvs \<or> cvc = assign_vec cvt cvs"
    and "cbc = BoolColumn_copy hb cbs \<or> cbc = assign_bool hb cbt cbs"
    and "clc = ListColumn_copy cls \<or> clc = assign_list clt cls"
  shows
   "(\<forall>w \<in> {cvs, cvc}. case reset_vec hv w of (h', w') \<Rightarrow>
       \<forall>r \<in> {w', cvs, cvc}. rowCount_vec h' r = 0
         \<and> (\<forall>row. fst (value_vec h' r row) = Inl (RangeException Std_what)))
  \<and> (\<forall>w \<in> {cbs, cbc}. case reset_bool hb w of (h', w') \<Rightarrow>
       \<forall>r \<in> {w', cbs, cbc}. rowCount_bool h' r = 0
         \<and> (\<forall>row. fst (value_bool h' r row) = Inl (RangeException Std_what)))
  \<and> (\<forall>w \<in> {cls, clc}. case reset_list hl w of (h', w') \<Rightarrow>
       \<forall>r \<in> {w', cls, clc}. rowCount_list h' r = 0
         \<and> (\<forall>row. fst (value_list h' r row) = Inl (RangeException (Text ''Invalid row number.''))))"
proof -
  have v: "pData cvc = pData cvs" using assms(1) by (rule copy_vec_handle[THEN conjunct1])
  have b: "pData cbc = pData cbs" using assms(2) by (rule copy_bool_handle[THEN conjunct1])
  have l: "pData clc = pData cls" using assms(3) by (rule copy_list_handle[THEN conjunct1])
  have 1: "\<forall>w \<in> {cvs, cvc}. case reset_vec hv w of (h', w') \<Rightarrow>
       \<forall>r \<in> {w', cvs, cvc}. rowCount_vec h' r = 0
         \<and> (\<forall>row. fst (value_vec h' r row) = Inl (RangeException Std_what))"
  proof (intro ballI, unfold case_prod_beta, intro ballI conjI allI)
    fix w r row
    assume "w \<in> {cvs, cvc}" and "r \<in> {snd (reset_vec hv w), cvs, cvc}"
    then have "pData r = pData w" using v reset_handles(1)[of hv w] by auto
    then show "rowCount_vec (fst (reset_vec hv w)) r = 0"
      and "fst (value_vec (fst (reset_vec hv w)) r row) = Inl (RangeException Std_what)"
      by (simp_all add: reset_vec_shared)
  qed
  have 2: "\<forall>w \<in> {cbs, cbc}. case reset_bool hb w of (h', w') \<Rightarrow>
       \<forall>r \<in> {w', cbs, cbc}. rowCount_bool h' r = 0
         \<and> (\<forall>row. fst (value_bool h' r row) = Inl (RangeException Std_what))"
  proof (intro ballI, unfold case_prod_beta, intro ballI conjI allI)
    fix w r row
    assume "w \<in> {cbs, cbc}" and "r \<in> {snd (reset_bool hb w), cbs, cbc}"
    then have "pData r = pData w" using b reset_handles(2)[of hb w] by auto
    then show "rowCount_bool (fst (reset_bool hb w)) r = 0"
      and "fst (value_bool (fst (reset_bool hb w)) r row) = Inl (RangeException Std_what)"
      by (simp_all add: reset_bool_shared)
  qed
  have 3: "\<forall>w \<in> {cls, clc}. case reset_list hl w of (h', w') \<Rightarrow>
       \<forall>r \<in> {w', cls, clc}. rowCount_list h' r = 0
         \<and> (\<forall>row. fst (value_list h' r row) = Inl (RangeException (Text ''Invalid row number.'')))"
  proof (intro ballI, unfold case_prod_beta, intro ballI conjI allI)
    fix w r row
    assume "w \<in> {cls, clc}" and "r \<in> {snd (reset_list hl w), cls, clc}"
    then have "pData r = pData w" using l reset_handles(3)[of hl w] by auto
    then show "rowCount_list (fst (reset_list hl w)) r = 0"
      and "fst (value_list (fst (reset_list hl w)) r row)
             = Inl (RangeException (Text ''Invalid row number.''))"
      by (simp_all add: reset_list_shared)
  qed
  from 1 2 3 show ?thesis by (intro conjI)
qed

theorem reset_empties_shared_store_witness:
  "rowCount_vec (fst (reset_vec ((\<lambda>a. [])(0 := [10, 20, 30 :: int])) \<lparr>metaColumn = (), pData = 0\<rparr>))
       (Column_copy \<lparr>metaColumn = (), pData = 0\<rparr>) = 0
 \<and> fst (value_vec (fst (reset_vec ((\<lambda>a. [])(0 := [10, 20, 30 :: int])) \<lparr>metaColumn = (), pData = 0\<rparr>))
         (Column_copy \<lparr>metaColumn = (), pData = 0\<rparr>) 0) = Inl (RangeException Std_what)
 \<and> fst (value_bool (fst (reset_bool ((\<lambda>a. [])(0 := [True, False]))
                             (BoolColumn_copy ((\<lambda>a. [])(0 := [True, False]))
                                \<lparr>metaColumn = (), pData = 0, deque = [True, False]\<rparr>)))
         \<lparr>metaColumn = (), pData = 0, deque = [True, False]\<rparr> 1) = Inl (RangeException Std_what)
 \<and> fst (value_list (fst (reset_list ((\<lambda>a. [])(0 := [10, 20, 30 :: int])) \<lparr>metaColumn = (), pData = 0\<rparr>))
         (assign_list \<lparr>metaColumn = (), pData = 7\<rparr> \<lparr>metaColumn = (), pData = 0\<rparr>) 2)
     = Inl (RangeException (Text ''Invalid row number.''))"
  using reset_empties_shared_store
    [where hv = "(\<lambda>a. [])(0 := [10, 20, 30 :: int])"
       and cvs = "\<lparr>metaColumn = (), pData = 0\<rparr>"
       and cvc = "Column_copy \<lparr>metaColumn = (), pData = 0\<rparr>"
       and hb = "(\<lambda>a. [])(0 := [True, False])"
       and cbs = "\<lparr>metaColumn = (), pData = 0, deque = [True, False]\<rparr>"
       and cbc = "BoolColumn_copy ((\<lambda>a. [])(0 := [True, False]))
                    \<lparr>metaColumn = (), pData = 0, deque = [True, False]\<rparr>"
       and hl = "(\<lambda>a. [])(0 := [10, 20, 30 :: int])"
       and clt = "\<lparr>metaColumn = (), pData = 7\<rparr>" and cls = "\<lparr>metaColumn = (), pData = 0\<rparr>"
       and clc = "assign_list \<lparr>metaColumn = (), pData = 7\<rparr> \<lparr>metaColumn = (), pData = 0\<rparr>"]
  by (simp add: case_prod_beta)

end
